theory Spec2Isabelle
  imports Complex_Main "HOL-Library.AList"
begin

section \<open>JavaScript values\<close>

text \<open>
  A JavaScript number is an IEEE double: not-a-number, an infinity, or a finite value,
  which is kept as the real number it denotes exactly (the two zeros are one value; none
  of the operations used below tells them apart).
\<close>

datatype jsnum = NaN | NegInf | Fin real | PosInf

text \<open>The relational operator \<open><\<close> on numbers: false as soon as an operand is NaN.\<close>

fun js_less :: "jsnum \<Rightarrow> jsnum \<Rightarrow> bool" where
  "js_less NaN _ = False"
| "js_less _ NaN = False"
| "js_less (Fin a) (Fin b) = (a < b)"
| "js_less NegInf NegInf = False"
| "js_less NegInf _ = True"
| "js_less _ NegInf = False"
| "js_less PosInf _ = False"
| "js_less _ PosInf = True"

text \<open>
  The values a cell of a parsed workbook, a property of a row object or a field of a JSON
  body can hold. A date carries its time value in milliseconds since the epoch, or
  \<open>None\<close> for an invalid date (the time value NaN). \<open>JObject\<close> stands for every other
  object (a formula, rich text, a hyperlink, a cell error).
\<close>

datatype jsval =
    JUndefined
  | JNull
  | JBool bool
  | JNum jsnum
  | JStr string
  | JDate "int option"
  | JObject

text \<open>ToBoolean.\<close>

fun truthy :: "jsval \<Rightarrow> bool" where
  "truthy JUndefined = False"
| "truthy JNull = False"
| "truthy (JBool b) = b"
| "truthy (JNum x) = (x \<noteq> NaN \<and> x \<noteq> Fin 0)"
| "truthy (JStr s) = (s \<noteq> [])"
| "truthy (JDate t) = True"
| "truthy JObject = True"

text \<open>An object with string keys; reading a key that is not there gives \<open>undefined\<close>.\<close>

type_synonym jsobj = "string \<rightharpoonup> jsval"

definition getProp :: "jsobj \<Rightarrow> string \<Rightarrow> jsval" where
  "getProp obj k = (case obj k of None \<Rightarrow> JUndefined | Some v \<Rightarrow> v)"

text \<open>\<open>value === undefined || value === null || value === ''\<close>\<close>

definition isEmpty :: "jsval \<Rightarrow> bool" where
  "isEmpty v = (v = JUndefined \<or> v = JNull \<or> v = JStr [])"

text \<open>\<open>xs.includes(v)\<close> for an array of strings: only a string equal to an element is found.\<close>

fun array_includes :: "string list \<Rightarrow> jsval \<Rightarrow> bool" where
  "array_includes xs (JStr s) = (s \<in> set xs)"
| "array_includes xs _ = False"

text \<open>\<open>xs.join(sep)\<close> for an array of strings.\<close>

fun join :: "string \<Rightarrow> string list \<Rightarrow> string" where
  "join sep [] = []"
| "join sep [x] = x"
| "join sep (x # y # ys) = x @ sep @ join sep (y # ys)"

text \<open>The decimal numeral of a natural number, as a template literal prints a row number.\<close>

fun show_nat :: "nat \<Rightarrow> string" where
  "show_nat n =
     (if n < 10 then [''0123456789'' ! n]
      else show_nat (n div 10) @ [''0123456789'' ! (n mod 10)])"

declare show_nat.simps [simp del]

section \<open>The host\<close>

text \<open>
  What the program takes from the JavaScript runtime and does not compute itself:
  \<open>parseFloat\<close>, the \<open>Date\<close> constructor applied to a value (the time value of the
  new date, \<open>None\<close> when it is invalid), \<open>getMonth\<close> and \<open>getFullYear\<close> of a time
  value in the server's local time zone, the string a number converts to, the string a
  date converts to, and the clock: \<open>nowAt sheetId rowNumber\<close> is the instant
  \<open>new Date()\<close> returns when the row \<open>rowNumber\<close> of the worksheet \<open>sheetId\<close> is
  validated.
\<close>

record host =
  parseFloat :: "jsval \<Rightarrow> jsnum"
  newDate :: "jsval \<Rightarrow> int option"
  getMonth :: "int \<Rightarrow> nat"
  getFullYear :: "int \<Rightarrow> int"
  numToString :: "jsnum \<Rightarrow> string"
  dateToString :: "int option \<Rightarrow> string"
  nowAt :: "nat \<Rightarrow> nat \<Rightarrow> int"

text \<open>ToPropertyKey of a value used as a key of an object, as in \<open>rowObject[header]\<close>.\<close>

fun toKey :: "host \<Rightarrow> jsval \<Rightarrow> string" where
  "toKey h JUndefined = ''undefined''"
| "toKey h JNull = ''null''"
| "toKey h (JBool b) = (if b then ''true'' else ''false'')"
| "toKey h (JNum x) = numToString h x"
| "toKey h (JStr s) = s"
| "toKey h (JDate t) = dateToString h t"
| "toKey h JObject = ''[object Object]''"

section \<open>SheetConfig.js\<close>

text \<open>
  A rule of \<open>validationRules\<close>. A field the rule does not define is \<open>None\<close>
  (\<open>False\<close> for the two flags, which are only tested for truth).
\<close>

record rule =
  r_required :: bool
  r_type :: "string option"
  r_min :: "jsnum option"
  r_allowedValues :: "string list option"
  r_currentMonth :: bool

text \<open>
  A sheet configuration. Both objects are kept as association lists in the order their
  keys are enumerated (\<open>for ... in\<close>, \<open>Object.keys\<close>, \<open>Object.entries\<close>).
\<close>

record config =
  columnMapping :: "(string \<times> string) list"
  validationRules :: "(string \<times> rule) list"

text \<open>The rules of \<open>default\<close>. The literal \<open>0.01\<close> is the double \<open>5764607523034235 / 2^59\<close>.\<close>

definition rule_Name :: rule where
  "rule_Name = \<lparr> r_required = True, r_type = Some ''string'', r_min = None,
                 r_allowedValues = None, r_currentMonth = False \<rparr>"

definition rule_Amount :: rule where
  "rule_Amount = \<lparr> r_required = True, r_type = Some ''number'',
                   r_min = Some (Fin (5764607523034235 / 2 ^ 59)),
                   r_allowedValues = None, r_currentMonth = False \<rparr>"

definition rule_Date :: rule where
  "rule_Date = \<lparr> r_required = True, r_type = Some ''date'', r_min = None,
                 r_allowedValues = None, r_currentMonth = True \<rparr>"

definition rule_Verified :: rule where
  "rule_Verified = \<lparr> r_required = False, r_type = None, r_min = None,
                     r_allowedValues = Some [''Yes'', ''No''], r_currentMonth = False \<rparr>"

definition sheetConfig_default :: config where
  "sheetConfig_default =
     \<lparr> columnMapping =
         [(''Name'', ''name''), (''Amount'', ''amount''), (''Date'', ''date''),
          (''Verified'', ''verified'')],
       validationRules =
         [(''Name'', rule_Name), (''Amount'', rule_Amount), (''Date'', rule_Date),
          (''Verified'', rule_Verified)] \<rparr>"

section \<open>validateRow\<close>

text \<open>The messages, each \<open>Row {rowNumber}: "{col}" ...\<close>.\<close>

definition msg_head :: "nat \<Rightarrow> string \<Rightarrow> string" where
  \<open>msg_head rowNumber col = ''Row '' @ show_nat rowNumber @ '': "'' @ col\<close>

definition msg_required :: "nat \<Rightarrow> string \<Rightarrow> string" where
  \<open>msg_required rowNumber col = msg_head rowNumber col @ ''" is required.''\<close>

definition msg_numeric :: "nat \<Rightarrow> string \<Rightarrow> string" where
  \<open>msg_numeric rowNumber col = msg_head rowNumber col @ ''" must be numeric.''\<close>

definition msg_min :: "host \<Rightarrow> nat \<Rightarrow> string \<Rightarrow> jsnum \<Rightarrow> string" where
  \<open>msg_min h rowNumber col m =
     msg_head rowNumber col @ ''" must be greater than '' @ numToString h m @ ''.''\<close>

definition msg_date :: "nat \<Rightarrow> string \<Rightarrow> string" where
  \<open>msg_date rowNumber col = msg_head rowNumber col @ ''" must be a valid date.''\<close>

definition msg_month :: "nat \<Rightarrow> string \<Rightarrow> string" where
  \<open>msg_month rowNumber col = msg_head rowNumber col @ ''" must be within the current month.''\<close>

definition msg_string :: "nat \<Rightarrow> string \<Rightarrow> string" where
  \<open>msg_string rowNumber col = msg_head rowNumber col @ ''" must be a string.''\<close>

definition msg_allowed :: "nat \<Rightarrow> string \<Rightarrow> string list \<Rightarrow> string" where
  \<open>msg_allowed rowNumber col allowed =
     msg_head rowNumber col @ ''" must be one of '' @ join '', '' allowed @ ''.''\<close>

text \<open>
  The type checks of one column (the chain \<open>if (rule.type === 'number') ... else if
  ... 'date' ... else if ... 'string'\<close>), on a value that is not empty: the messages it
  pushes, in order.
\<close>

definition typeCheck :: "host \<Rightarrow> int \<Rightarrow> nat \<Rightarrow> string \<Rightarrow> rule \<Rightarrow> jsval \<Rightarrow> string list" where
  "typeCheck h now rowNumber col rl v =
     (if r_type rl = Some ''number'' then
        (let num = parseFloat h v in
         if num = NaN then [msg_numeric rowNumber col]
         else if r_min rl \<noteq> None \<and> js_less num (the (r_min rl))
           then [msg_min h rowNumber col (the (r_min rl))]
         else [])
      else if r_type rl = Some ''date'' then
        (case newDate h v of
           None \<Rightarrow> [msg_date rowNumber col]
         | Some t \<Rightarrow>
             if r_currentMonth rl then
               (if getMonth h t \<noteq> getMonth h now \<or> getFullYear h t \<noteq> getFullYear h now
                then [msg_month rowNumber col] else [])
             else [])
      else if r_type rl = Some ''string'' then
        (case v of JStr s \<Rightarrow> [] | _ \<Rightarrow> [msg_string rowNumber col])
      else [])"

text \<open>The check of the allowed values, which follows the type checks whatever the type.\<close>

definition allowedCheck :: "nat \<Rightarrow> string \<Rightarrow> rule \<Rightarrow> jsval \<Rightarrow> string list" where
  "allowedCheck rowNumber col rl v =
     (case r_allowedValues rl of
        None \<Rightarrow> []
      | Some allowed \<Rightarrow>
          if \<not> array_includes allowed v then [msg_allowed rowNumber col allowed] else [])"

text \<open>
  One turn of the loop \<open>for (const col in rules)\<close>: the messages pushed for the column
  \<open>col\<close>. The two \<open>continue\<close> statements end the turn.
\<close>

definition validateColumn :: "host \<Rightarrow> int \<Rightarrow> jsobj \<Rightarrow> nat \<Rightarrow> string \<Rightarrow> rule \<Rightarrow> string list" where
  "validateColumn h now rowData rowNumber col rl =
     (let v = getProp rowData col in
      if r_required rl \<and> isEmpty v then [msg_required rowNumber col]
      else if isEmpty v then []
      else typeCheck h now rowNumber col rl v @ allowedCheck rowNumber col rl v)"

text \<open>The loop over the rules, with the array \<open>errors\<close> it pushes to.\<close>

fun validateRow_loop ::
  "host \<Rightarrow> int \<Rightarrow> jsobj \<Rightarrow> nat \<Rightarrow> (string \<times> rule) list \<Rightarrow> string list \<Rightarrow> string list" where
  "validateRow_loop h now rowData rowNumber [] errors = errors"
| "validateRow_loop h now rowData rowNumber ((col, rl) # rules) errors =
     validateRow_loop h now rowData rowNumber rules
       (errors @ validateColumn h now rowData rowNumber col rl)"

text \<open>\<open>validateRow(rowData, config, rowNumber)\<close>, at the instant \<open>now\<close> it reads first.\<close>

definition validateRow :: "host \<Rightarrow> int \<Rightarrow> jsobj \<Rightarrow> config \<Rightarrow> nat \<Rightarrow> string list" where
  "validateRow h now rowData cfg rowNumber =
     validateRow_loop h now rowData rowNumber (validationRules cfg) []"

section \<open>The upload handler\<close>

text \<open>The one exception the handler can meet: reading a property of \<open>undefined\<close>.\<close>

datatype js_error = TypeError

text \<open>
  The mapping of a row (the loop over \<open>Object.entries(config.columnMapping)\<close>), with
  the object \<open>mappedRow\<close> it fills. \<open>config.validationRules[excelColumn].type\<close>
  throws when the column has no rule.
\<close>

fun mapRow_loop ::
  "host \<Rightarrow> config \<Rightarrow> jsobj \<Rightarrow> (string \<times> string) list \<Rightarrow> jsobj \<Rightarrow> js_error + jsobj" where
  "mapRow_loop h cfg rowObject [] mappedRow = Inr mappedRow"
| "mapRow_loop h cfg rowObject ((excelColumn, dbField) # entries) mappedRow =
     (let v = getProp rowObject excelColumn;
          m1 = mappedRow(dbField \<mapsto> v)
      in case map_of (validationRules cfg) excelColumn of
           None \<Rightarrow> Inl TypeError
         | Some rl \<Rightarrow>
             (let m2 = (if r_type rl = Some ''date'' \<and> truthy v
                        then m1(dbField \<mapsto> JDate (newDate h v)) else m1);
                  m3 = (if r_type rl = Some ''number'' \<and> truthy v
                        then m2(dbField \<mapsto> JNum (parseFloat h v)) else m2)
              in mapRow_loop h cfg rowObject entries m3))"

definition mapRow :: "host \<Rightarrow> jsobj \<Rightarrow> config \<Rightarrow> js_error + jsobj" where
  "mapRow h rowObject cfg = mapRow_loop h cfg rowObject (columnMapping cfg) Map.empty"

text \<open>
  A worksheet as the reader gives it: its id, its name, and the rows \<open>eachRow\<close>
  visits, each with its row number and the cells \<open>eachCell\<close> visits, each with its
  column number and value.
\<close>

type_synonym cell = "nat \<times> jsval"

record worksheet =
  ws_id :: nat
  ws_name :: string
  ws_rows :: "(nat \<times> cell list) list"

text \<open>\<open>worksheet.getRow(n)\<close>, as its cells: none when the sheet has no such row.\<close>

definition getRow :: "worksheet \<Rightarrow> nat \<Rightarrow> cell list" where
  "getRow ws n = (case map_of (ws_rows ws) n of None \<Rightarrow> [] | Some cells \<Rightarrow> cells)"

text \<open>The object \<open>headers\<close>, from column number to header value.\<close>

definition readHeaders :: "cell list \<Rightarrow> (nat \<times> jsval) list" where
  "readHeaders cells = fold (\<lambda>(colNumber, v) headers. AList.update colNumber v headers) cells []"

definition headerAt :: "(nat \<times> jsval) list \<Rightarrow> nat \<Rightarrow> jsval" where
  "headerAt headers colNumber =
     (case map_of headers colNumber of None \<Rightarrow> JUndefined | Some v \<Rightarrow> v)"

text \<open>The columns of the mapping that \<open>Object.values(headers)\<close> does not include.\<close>

definition missingColumns :: "config \<Rightarrow> (nat \<times> jsval) list \<Rightarrow> string list" where
  "missingColumns cfg headers =
     filter (\<lambda>expectedColumn. JStr expectedColumn \<notin> set (map snd headers))
       (map fst (columnMapping cfg))"

text \<open>
  The object \<open>rowObject\<close> of a row, keyed by the header of each cell. The key
  \<open>__proto__\<close> gives no property of the object itself: the assignment goes to the
  setter of \<open>Object.prototype\<close>, which makes the value the prototype of the row object
  when it is an object and does nothing otherwise. No column of \<open>default\<close> names a
  property of such a prototype (a date or a cell value object), so the columns read from
  the row object are the properties assigned here.
\<close>

definition buildRowObject :: "host \<Rightarrow> (nat \<times> jsval) list \<Rightarrow> cell list \<Rightarrow> jsobj" where
  "buildRowObject h headers cells =
     fold (\<lambda>(colNumber, v) rowObject.
             if toKey h (headerAt headers colNumber) = ''__proto__'' then rowObject
             else rowObject(toKey h (headerAt headers colNumber) \<mapsto> v))
       cells Map.empty"

record errorDescriptor =
  e_row :: nat
  e_error :: string

text \<open>
  \<open>sheetData\<close> and \<open>validationErrors\<close> are objects made by \<open>{}\<close> and keyed by
  sheet names, so the key \<open>__proto__\<close> is not a key like the others. Such an object is
  kept as its own properties and the array last made its prototype through that key
  (\<open>None\<close> while the prototype is \<open>Object.prototype\<close>).
\<close>

type_synonym 'a plainObject = "(string \<rightharpoonup> 'a) \<times> 'a option"

text \<open>
  \<open>obj[k] = v\<close> for an array \<open>v\<close>: with \<open>k\<close> being \<open>__proto__\<close>, and no own
  property of that name, the setter inherited from \<open>Object.prototype\<close> makes \<open>v\<close>
  the prototype and no property is created; every other key becomes an own property
  (what \<open>Object.prototype\<close> and an array define under other names is writable data).
\<close>

definition obj_assign :: "'a plainObject \<Rightarrow> string \<Rightarrow> 'a \<Rightarrow> 'a plainObject" where
  "obj_assign obj k v =
     (if k = ''__proto__'' \<and> fst obj k = None then (fst obj, Some v)
      else ((fst obj)(k \<mapsto> v), snd obj))"

text \<open>
  \<open>obj[k]\<close>, where the handler reads an array it assigned before: the own property,
  or for \<open>__proto__\<close> the prototype. \<open>None\<close> is any other value, which the handler
  never meets.
\<close>

definition obj_read :: "'a plainObject \<Rightarrow> string \<Rightarrow> 'a option" where
  "obj_read obj k =
     (case fst obj k of
        Some v \<Rightarrow> Some v
      | None \<Rightarrow> if k = ''__proto__'' then snd obj else None)"

text \<open>\<open>delete obj[k]\<close> removes an own property and nothing else.\<close>

definition obj_delete :: "'a plainObject \<Rightarrow> string \<Rightarrow> 'a plainObject" where
  "obj_delete obj k = ((fst obj)(k := None), snd obj)"

text \<open>
  \<open>obj[k].push(...)\<close>: the array read is extended where it is; it throws when what is
  read is no array.
\<close>

definition obj_push :: "'a list plainObject \<Rightarrow> string \<Rightarrow> 'a list \<Rightarrow> js_error + 'a list plainObject" where
  "obj_push obj k xs =
     (case obj_read obj k of
        None \<Rightarrow> Inl TypeError
      | Some ys \<Rightarrow> Inr (obj_assign obj k (ys @ xs)))"

text \<open>The three results the handler builds.\<close>

record upload_state =
  sheetNames :: "string list"
  sheetDataObject :: "jsobj list plainObject"
  validationErrorsObject :: "errorDescriptor list plainObject"

text \<open>
  What the JSON of the response shows of the two objects: their own properties.
\<close>

definition sheetData :: "upload_state \<Rightarrow> (string \<rightharpoonup> jsobj list)" where
  "sheetData st = fst (sheetDataObject st)"

definition validationErrors :: "upload_state \<Rightarrow> (string \<rightharpoonup> errorDescriptor list)" where
  "validationErrors st = fst (validationErrorsObject st)"

text \<open>
  The callback of \<open>worksheet.eachRow\<close> over the rows of a sheet.
\<close>

fun eachRow_loop ::
  "host \<Rightarrow> config \<Rightarrow> worksheet \<Rightarrow> (nat \<times> jsval) list \<Rightarrow> (nat \<times> cell list) list \<Rightarrow>
     upload_state \<Rightarrow> js_error + upload_state" where
  "eachRow_loop h cfg ws headers [] st = Inr st"
| "eachRow_loop h cfg ws headers ((rowNumber, cells) # rows) st =
     (if rowNumber = 1 then eachRow_loop h cfg ws headers rows st
      else
        (let sheetName = ws_name ws;
             rowObject = buildRowObject h headers cells;
             rowErrors = validateRow h (nowAt h (ws_id ws) rowNumber) rowObject cfg rowNumber
         in case (if rowErrors = [] then Inr (validationErrorsObject st)
                  else obj_push (validationErrorsObject st) sheetName
                         (map (\<lambda>errorMsg. \<lparr>e_row = rowNumber, e_error = errorMsg\<rparr>)
                            rowErrors)) of
              Inl e \<Rightarrow> Inl e
            | Inr errorsObject \<Rightarrow>
                (case mapRow h rowObject cfg of
                   Inl e \<Rightarrow> Inl e
                 | Inr mappedRow \<Rightarrow>
                     (case obj_push (sheetDataObject st) sheetName [mappedRow] of
                        Inl e \<Rightarrow> Inl e
                      | Inr dataObject \<Rightarrow>
                          eachRow_loop h cfg ws headers rows
                            (st\<lparr>sheetDataObject := dataObject,
                                validationErrorsObject := errorsObject\<rparr>)))))"

definition msg_missing :: "string list \<Rightarrow> string" where
  "msg_missing missing = ''Missing required columns: '' @ join '', '' missing"

text \<open>The callback of \<open>workbook.eachSheet\<close> on one worksheet.\<close>

definition processSheet ::
  "host \<Rightarrow> config \<Rightarrow> upload_state \<Rightarrow> worksheet \<Rightarrow> js_error + upload_state" where
  "processSheet h cfg st ws =
     (let sheetName = ws_name ws;
          st1 = st\<lparr>sheetNames := sheetNames st @ [sheetName]\<rparr>;
          headers = readHeaders (getRow ws 1);
          missing = missingColumns cfg headers
      in if missing \<noteq> [] then
           Inr (st1\<lparr>validationErrorsObject :=
                  obj_assign (validationErrorsObject st1) sheetName
                    [\<lparr>e_row = 1, e_error = msg_missing missing\<rparr>]\<rparr>)
         else
           (let st2 = st1\<lparr>sheetDataObject := obj_assign (sheetDataObject st1) sheetName [],
                          validationErrorsObject :=
                            obj_assign (validationErrorsObject st1) sheetName []\<rparr>
            in case eachRow_loop h cfg ws headers (ws_rows ws) st2 of
                 Inl e \<Rightarrow> Inl e
               | Inr st3 \<Rightarrow>
                   (case obj_read (validationErrorsObject st3) sheetName of
                      None \<Rightarrow> Inl TypeError
                    | Some es \<Rightarrow>
                        if es = []
                        then Inr (st3\<lparr>validationErrorsObject :=
                                     obj_delete (validationErrorsObject st3) sheetName\<rparr>)
                        else Inr st3)))"

fun eachSheet_loop ::
  "host \<Rightarrow> config \<Rightarrow> worksheet list \<Rightarrow> upload_state \<Rightarrow> js_error + upload_state" where
  "eachSheet_loop h cfg [] st = Inr st"
| "eachSheet_loop h cfg (ws # sheets) st =
     (case processSheet h cfg st ws of
        Inl e \<Rightarrow> Inl e
      | Inr st1 \<Rightarrow> eachSheet_loop h cfg sheets st1)"

text \<open>The processing of a loaded workbook with a configuration.\<close>

definition processWorkbook ::
  "host \<Rightarrow> config \<Rightarrow> worksheet list \<Rightarrow> js_error + upload_state" where
  "processWorkbook h cfg workbook =
     eachSheet_loop h cfg workbook
       \<lparr>sheetNames = [], sheetDataObject = (Map.empty, None),
        validationErrorsObject = (Map.empty, None)\<rparr>"

text \<open>
  The request: no file, a file the reader cannot load (it throws), or a file and the
  workbook loaded from it.
\<close>

datatype upload_request = NoFile | Unreadable | Workbook "worksheet list"

datatype 'a response = Json 'a | Status400 string | Status500 string

text \<open>\<open>POST /api/upload\<close>: every sheet is processed with \<open>sheetConfig.default\<close>.\<close>

definition upload :: "host \<Rightarrow> upload_request \<Rightarrow> upload_state response" where
  "upload h req =
     (case req of
        NoFile \<Rightarrow> Status400 ''No file uploaded.''
      | Unreadable \<Rightarrow> Status500 ''Error processing file.''
      | Workbook workbook \<Rightarrow>
          (case processWorkbook h sheetConfig_default workbook of
             Inl e \<Rightarrow> Status500 ''Error processing file.''
           | Inr st \<Rightarrow> Json st))"

section \<open>The import handler\<close>

text \<open>\<open>xs.filter((x, index) => p(x, index))\<close>, from the index \<open>i\<close> on.\<close>

fun filter_index :: "('a \<Rightarrow> nat \<Rightarrow> bool) \<Rightarrow> nat \<Rightarrow> 'a list \<Rightarrow> 'a list" where
  "filter_index p i [] = []"
| "filter_index p i (x # xs) =
     (if p x i then x # filter_index p (Suc i) xs else filter_index p (Suc i) xs)"

text \<open>The rows of a sheet kept for the import, given the errors of that sheet.\<close>

definition validRows :: "errorDescriptor list \<Rightarrow> jsobj list \<Rightarrow> jsobj list" where
  "validRows errs rows =
     (let errorRows = set (map e_row errs)
      in filter_index
           (\<lambda>r index. (let rowNumber = index + 2
                        in rowNumber \<notin> errorRows \<and> truthy (getProp r ''name'')))
           0 rows)"

text \<open>
  The names \<open>Object.prototype\<close> defines: read from an object that has no own property
  of that name, each gives a function, or for \<open>__proto__\<close> the prototype itself.
\<close>

definition objectPrototypeKeys :: "string list" where
  "objectPrototypeKeys =
     [''constructor'', ''__defineGetter__'', ''__defineSetter__'', ''hasOwnProperty'',
      ''__lookupGetter__'', ''__lookupSetter__'', ''isPrototypeOf'',
      ''propertyIsEnumerable'', ''toString'', ''valueOf'', ''__proto__'',
      ''toLocaleString'']"

text \<open>
  \<open>(errors[sheet] || []).map(...)\<close>, as the descriptors it maps over: those of the own
  property, none when the read gives \<open>undefined\<close>. When the sheet has no own property
  and its name is one that \<open>Object.prototype\<close> defines, the read gives a value that is
  truthy and has no \<open>map\<close>, and the call throws.
\<close>

definition errorsOf ::
  "(string \<rightharpoonup> errorDescriptor list) \<Rightarrow> string \<Rightarrow> js_error + errorDescriptor list" where
  "errorsOf errors sheet =
     (case errors sheet of
        Some es \<Rightarrow> Inr es
      | None \<Rightarrow> if sheet \<in> set objectPrototypeKeys then Inl TypeError else Inr [])"

text \<open>
  The loop \<open>for (const sheet in data)\<close>. \<open>insertMany\<close> is the database: it returns the
  number of records it inserted, or throws. A sheet whose data is null is \<open>None\<close>.
\<close>

fun import_loop ::
  "(jsobj list \<Rightarrow> js_error + nat) \<Rightarrow> (string \<rightharpoonup> errorDescriptor list) \<Rightarrow>
     (string \<times> jsobj list option) list \<Rightarrow> nat \<Rightarrow> js_error + nat" where
  "import_loop insertMany errors [] importedCount = Inr importedCount"
| "import_loop insertMany errors ((sheet, rows) # rest) importedCount =
     (case rows of
        None \<Rightarrow> import_loop insertMany errors rest importedCount
      | Some rs \<Rightarrow>
          (case errorsOf errors sheet of
             Inl e \<Rightarrow> Inl e
           | Inr es \<Rightarrow>
               (let valid = validRows es rs
                in if valid \<noteq> [] then
                     (case insertMany valid of
                        Inl e \<Rightarrow> Inl e
                      | Inr n \<Rightarrow> import_loop insertMany errors rest (importedCount + n))
                   else import_loop insertMany errors rest importedCount)))"

record import_body =
  b_data :: "(string \<times> jsobj list option) list option"
  b_sheetData :: "(string \<times> jsobj list option) list option"
  b_errors :: "(string \<rightharpoonup> errorDescriptor list) option"

text \<open>\<open>POST /api/import\<close>; the answer is the number in the message.\<close>

definition import_handler ::
  "(jsobj list \<Rightarrow> js_error + nat) \<Rightarrow> import_body \<Rightarrow> nat response" where
  "import_handler insertMany body =
     (let data = (case b_data body of Some d \<Rightarrow> Some d | None \<Rightarrow> b_sheetData body);
          errors = (case b_errors body of Some e \<Rightarrow> e | None \<Rightarrow> Map.empty)
      in case data of
           None \<Rightarrow> Status400 ''No data provided for import.''
         | Some d \<Rightarrow>
             (case import_loop insertMany errors d 0 of
                Inl e \<Rightarrow> Status500 ''Error importing data.''
              | Inr n \<Rightarrow> Json n))"

section \<open>Notions used in the statements\<close>

text \<open>
  A configuration whose every mapped column has a rule: the reading of
  \<open>config.validationRules[excelColumn].type\<close> then never throws.
\<close>

definition rulesCoverMapping :: "config \<Rightarrow> bool" where
  "rulesCoverMapping cfg =
     list_all (\<lambda>(excelColumn, dbField). map_of (validationRules cfg) excelColumn \<noteq> None)
       (columnMapping cfg)"

text \<open>The headers of a sheet, read from its first row.\<close>

definition sheetHeaders :: "worksheet \<Rightarrow> (nat \<times> jsval) list" where
  "sheetHeaders ws = readHeaders (getRow ws 1)"

text \<open>The data rows of a sheet: the rows visited whose number is not 1.\<close>

definition dataRows :: "worksheet \<Rightarrow> (nat \<times> cell list) list" where
  "dataRows ws = filter (\<lambda>(rowNumber, cells). rowNumber \<noteq> 1) (ws_rows ws)"

text \<open>The descriptors recorded for one data row: one for each message of \<open>validateRow\<close>.\<close>

definition rowDescriptors ::
  "host \<Rightarrow> config \<Rightarrow> worksheet \<Rightarrow> (nat \<times> jsval) list \<Rightarrow> nat \<times> cell list \<Rightarrow> errorDescriptor list" where
  "rowDescriptors h cfg ws headers r =
     (case r of (rowNumber, cells) \<Rightarrow>
        map (\<lambda>errorMsg. \<lparr>e_row = rowNumber, e_error = errorMsg\<rparr>)
          (validateRow h (nowAt h (ws_id ws) rowNumber) (buildRowObject h headers cells) cfg
             rowNumber))"

text \<open>The mapped row of a data row, when \<open>mapRow\<close> returns one.\<close>

definition mappedOf :: "host \<Rightarrow> config \<Rightarrow> (nat \<times> jsval) list \<Rightarrow> nat \<times> cell list \<Rightarrow> jsobj" where
  "mappedOf h cfg headers r =
     (case mapRow h (buildRowObject h headers (snd r)) cfg of
        Inl e \<Rightarrow> Map.empty | Inr mappedRow \<Rightarrow> mappedRow)"

text \<open>
  The descriptors recorded for a sheet: the one of the header when columns are missing,
  those of its data rows otherwise.
\<close>

definition sheetErrors :: "host \<Rightarrow> config \<Rightarrow> worksheet \<Rightarrow> errorDescriptor list" where
  "sheetErrors h cfg ws =
     (if missingColumns cfg (sheetHeaders ws) \<noteq> []
      then [\<lparr>e_row = 1, e_error = msg_missing (missingColumns cfg (sheetHeaders ws))\<rparr>]
      else concat (map (rowDescriptors h cfg ws (sheetHeaders ws)) (dataRows ws)))"

section \<open>Example data\<close>

text \<open>
  Year and month (from 0) of a time value in UTC, by the usual computation on days since
  the epoch in eras of 400 years.
\<close>

definition utcYearMonth :: "int \<Rightarrow> int \<times> nat" where
  "utcYearMonth t =
     (let z = t div 86400000 + 719468;
          era = z div 146097;
          doe = z mod 146097;
          yoe = (doe - doe div 1460 + doe div 36524 - doe div 146096) div 365;
          doy = doe - (365 * yoe + yoe div 4 - yoe div 100);
          mp = (5 * doy + 2) div 153;
          m = (if mp < 10 then mp + 3 else mp - 9)
      in (yoe + era * 400 + (if m \<le> 2 then 1 else 0), nat (m - 1)))"

text \<open>
  A host for the examples: a server in UTC whose clock stands at 2024-01-15T00:00:00Z
  (the time value 1705276800000). Of the conversions it gives the cases the examples
  meet: \<open>parseFloat\<close> of a number is that number, the date made from a date has its time
  value, and \<open>0.01\<close> prints as such; every other argument gets NaN, an invalid date or a
  placeholder.
\<close>

definition sample_host :: host where
  "sample_host =
     \<lparr> parseFloat = (\<lambda>v. case v of JNum x \<Rightarrow> x | _ \<Rightarrow> NaN),
       newDate = (\<lambda>v. case v of JDate t \<Rightarrow> t | _ \<Rightarrow> None),
       getMonth = (\<lambda>t. snd (utcYearMonth t)),
       getFullYear = (\<lambda>t. fst (utcYearMonth t)),
       numToString = (\<lambda>x. if x = Fin (5764607523034235 / 2 ^ 59) then ''0.01'' else ''NaN''),
       dateToString = (\<lambda>t. ''Invalid Date''),
       nowAt = (\<lambda>sheetId rowNumber. 1705276800000) \<rparr>"

text \<open>
  A sheet with the four headers and two data rows: row 2 has an empty name, row 3 an
  amount below the minimum and a value of Verified that is not allowed. Both dates are
  2024-01-15.
\<close>

definition example_sheet1 :: worksheet where
  "example_sheet1 =
     \<lparr> ws_id = 1, ws_name = ''Sheet1'',
       ws_rows =
         [(1, [(1, JStr ''Name''), (2, JStr ''Amount''), (3, JStr ''Date''),
               (4, JStr ''Verified'')]),
          (2, [(1, JStr ''''), (2, JNum (Fin 5)), (3, JDate (Some 1705276800000)),
               (4, JStr ''Yes'')]),
          (3, [(1, JStr ''Bob''), (2, JNum (Fin (- 1))), (3, JDate (Some 1705276800000)),
               (4, JStr ''Maybe'')])] \<rparr>"

text \<open>A sheet whose header has neither Date nor Verified.\<close>

definition example_sheet2 :: worksheet where
  "example_sheet2 =
     \<lparr> ws_id = 2, ws_name = ''Sheet2'',
       ws_rows =
         [(1, [(1, JStr ''Name''), (2, JStr ''Amount'')]),
          (2, [(1, JStr ''Ann''), (2, JNum (Fin 7))])] \<rparr>"

definition example_workbook :: "worksheet list" where
  "example_workbook = [example_sheet1, example_sheet2]"

text \<open>A sheet with the four headers and one data row that has no error.\<close>

definition example_sheet_clean :: worksheet where
  "example_sheet_clean =
     \<lparr> ws_id = 3, ws_name = ''Clean'',
       ws_rows =
         [(1, [(1, JStr ''Name''), (2, JStr ''Amount''), (3, JStr ''Date''),
               (4, JStr ''Verified'')]),
          (2, [(1, JStr ''Ann''), (2, JNum (Fin 7)), (3, JDate (Some 1705276800000)),
               (4, JStr ''No'')])] \<rparr>"

text \<open>The same three sheets under the name \<open>__proto__\<close>, which a worksheet may bear.\<close>

definition proto_sheet1 :: worksheet where
  "proto_sheet1 = example_sheet1\<lparr>ws_name := ''__proto__''\<rparr>"

definition proto_sheet2 :: worksheet where
  "proto_sheet2 = example_sheet2\<lparr>ws_name := ''__proto__''\<rparr>"

definition proto_sheet_clean :: worksheet where
  "proto_sheet_clean = example_sheet_clean\<lparr>ws_name := ''__proto__''\<rparr>"

text \<open>The row objects of rows 2 and 3 of the first sheet.\<close>

definition example_row2 :: jsobj where
  "example_row2 =
     [''Name'' \<mapsto> JStr '''', ''Amount'' \<mapsto> JNum (Fin 5),
      ''Date'' \<mapsto> JDate (Some 1705276800000), ''Verified'' \<mapsto> JStr ''Yes'']"

definition example_row3 :: jsobj where
  "example_row3 =
     [''Name'' \<mapsto> JStr ''Bob'', ''Amount'' \<mapsto> JNum (Fin (- 1)),
      ''Date'' \<mapsto> JDate (Some 1705276800000), ''Verified'' \<mapsto> JStr ''Maybe'']"

text \<open>The row object of the data row of the sheet without errors.\<close>

definition example_row_clean :: jsobj where
  "example_row_clean =
     [''Name'' \<mapsto> JStr ''Ann'', ''Amount'' \<mapsto> JNum (Fin 7),
      ''Date'' \<mapsto> JDate (Some 1705276800000), ''Verified'' \<mapsto> JStr ''No'']"

section \<open>Properties of validateRow\<close>

lemma validateRow_loop_append:
  "validateRow_loop h now rowData n rules errors =
     errors @ concat (map (\<lambda>(col, rl). validateColumn h now rowData n col rl) rules)"
  by (induction rules arbitrary: errors) auto

lemma validateRow_columns:
  "validateRow h now rowData cfg n =
     concat (map (\<lambda>(col, rl). validateColumn h now rowData n col rl) (validationRules cfg))"
  by (simp add: validateRow_def validateRow_loop_append)

text \<open>
  The messages of a row are those of the columns before a rule, those of the column of
  the rule, and those of the columns after it.
\<close>

lemma validateRow_split:
  "validateRow h now rowData (cfg\<lparr>validationRules := before @ (col, rl) # after\<rparr>) n =
     validateRow h now rowData (cfg\<lparr>validationRules := before\<rparr>) n
       @ validateColumn h now rowData n col rl
       @ validateRow h now rowData (cfg\<lparr>validationRules := after\<rparr>) n"
  by (simp add: validateRow_columns)





text \<open>The examples, evaluated.\<close>

lemma example_rows_present:
  "getProp example_row2 ''Name'' = JStr ''''"
  "getProp example_row3 ''Amount'' = JNum (Fin (- 1))"
  "getProp example_row3 ''Date'' = JDate (Some 1705276800000)"
  "getProp example_row3 ''Verified'' = JStr ''Maybe''"
  by (simp_all add: getProp_def example_row2_def example_row3_def)

lemma january_2024: "utcYearMonth 1705276800000 = (2024, 0)"
  by code_simp


text \<open>
  C1. When the rule of a column is required and the value of the row for that column is
  undefined, null or the empty string, the turn of the loop for that column pushes the
  message \<open>Row {n}: "{col}" is required.\<close> and nothing else: in the messages of the
  row, between those of the columns before and those of the columns after, there is only
  that message, so no check of type, minimum or allowed values was made for the column.
\<close>

theorem required_empty_only_required_error:
  assumes "r_required rl" and "isEmpty (getProp rowData col)"
  shows "validateColumn h now rowData n col rl = [msg_required n col] \<and>
         validateRow h now rowData (cfg\<lparr>validationRules := before @ (col, rl) # after\<rparr>) n =
           validateRow h now rowData (cfg\<lparr>validationRules := before\<rparr>) n
             @ [msg_required n col]
             @ validateRow h now rowData (cfg\<lparr>validationRules := after\<rparr>) n"
  using assms by (simp add: validateRow_split validateColumn_def)

theorem required_empty_only_required_error_witness:
  \<open>r_required rule_Name \<and> isEmpty (getProp example_row2 ''Name'') \<and>
   validateColumn sample_host 1705276800000 example_row2 2 ''Name'' rule_Name =
     [''Row 2: "Name" is required.'']\<close>
proof -
  have 1: "r_required rule_Name" by (simp add: rule_Name_def)
  have 2: "isEmpty (getProp example_row2 ''Name'')"
    by (simp add: isEmpty_def example_rows_present)
  have 3: \<open>msg_required 2 ''Name'' = ''Row 2: "Name" is required.''\<close>
    by (simp add: msg_required_def msg_head_def show_nat.simps)
  from required_empty_only_required_error [OF 1 2, of sample_host 1705276800000 2]
  show ?thesis using 1 2 3 by simp
qed







section \<open>Plain objects\<close>

lemma obj_read_assign: "obj_read (obj_assign obj k v) k = Some v"
  by (simp add: obj_read_def obj_assign_def)

lemma obj_assign_assign: "obj_assign (obj_assign obj k v) k w = obj_assign obj k w"
  by (cases obj) (auto simp: obj_assign_def)

lemma obj_assign_same: "obj_read obj k = Some v \<Longrightarrow> obj_assign obj k v = obj"
  by (cases obj) (auto simp: obj_read_def obj_assign_def split: option.splits if_splits)

lemma obj_push_result:
  "obj_read obj k = Some ys \<Longrightarrow> obj_push obj k xs = Inr (obj_assign obj k (ys @ xs))"
  by (simp add: obj_push_def)

lemma obj_assign_other:
  "k \<noteq> ''__proto__'' \<Longrightarrow> obj_assign obj k v = ((fst obj)(k \<mapsto> v), snd obj)"
  by (simp add: obj_assign_def)

lemma obj_assign_proto:
  "fst obj ''__proto__'' = None \<Longrightarrow> obj_assign obj ''__proto__'' v = (fst obj, Some v)"
  by (simp add: obj_assign_def)

lemma dom_obj_assign: "dom (fst (obj_assign obj k v)) \<subseteq> insert k (dom (fst obj))"
  by (auto simp: obj_assign_def split: if_splits)

lemma dom_obj_delete: "dom (fst (obj_delete obj k)) \<subseteq> dom (fst obj)"
  by (auto simp: obj_delete_def split: if_splits)

section \<open>The upload handler, sheet by sheet\<close>

lemma mapRow_loop_returns:
  assumes "list_all (\<lambda>(excelColumn, dbField). map_of (validationRules cfg) excelColumn \<noteq> None) entries"
  shows "\<exists>out. mapRow_loop h cfg rowObject entries m = Inr out \<and>
               dom out = dom m \<union> set (map snd entries)"
  using assms
proof (induction entries arbitrary: m)
  case Nil
  then show ?case by simp
next
  case (Cons e entries)
  obtain excelColumn dbField where e: "e = (excelColumn, dbField)" by (cases e)
  from Cons.prems e obtain rl where rl: "map_of (validationRules cfg) excelColumn = Some rl"
    by auto
  from Cons.prems have rest: "list_all (\<lambda>(excelColumn, dbField). map_of (validationRules cfg) excelColumn \<noteq> None) entries"
    by simp
  define m3 where "m3 =
    (let v = getProp rowObject excelColumn; m1 = m(dbField \<mapsto> v);
         m2 = (if r_type rl = Some ''date'' \<and> truthy v
               then m1(dbField \<mapsto> JDate (newDate h v)) else m1)
     in (if r_type rl = Some ''number'' \<and> truthy v
         then m2(dbField \<mapsto> JNum (parseFloat h v)) else m2))"
  have step: "mapRow_loop h cfg rowObject (e # entries) m = mapRow_loop h cfg rowObject entries m3"
    by (simp add: e rl m3_def Let_def)
  have d: "dom m3 = insert dbField (dom m)"
    by (simp add: m3_def Let_def)
  from Cons.IH [OF rest, of m3] obtain out where
    "mapRow_loop h cfg rowObject entries m3 = Inr out" "dom out = dom m3 \<union> set (map snd entries)"
    by blast
  with step d e show ?case by auto
qed

lemma mapRow_loop_clock:
  "mapRow_loop (h\<lparr>nowAt := clock\<rparr>) cfg rowObject entries m = mapRow_loop h cfg rowObject entries m"
  by (induction entries arbitrary: m) (auto simp: Let_def split: option.splits)


lemma mapRow_mappedOf:
  assumes "rulesCoverMapping cfg"
  shows "mapRow h (buildRowObject h headers (snd r)) cfg = Inr (mappedOf h cfg headers r)"
  using mapRow_loop_returns [of cfg "columnMapping cfg" h "buildRowObject h headers (snd r)" Map.empty] assms
  by (auto simp: mapRow_def rulesCoverMapping_def mappedOf_def)

lemma eachRow_loop_result:
  assumes "rulesCoverMapping cfg"
    and "obj_read (sheetDataObject st) (ws_name ws) = Some ds"
    and "obj_read (validationErrorsObject st) (ws_name ws) = Some es"
  shows "eachRow_loop h cfg ws headers rows st =
           Inr (st\<lparr>sheetDataObject :=
                     obj_assign (sheetDataObject st) (ws_name ws)
                       (ds @ map (mappedOf h cfg headers)
                               (filter (\<lambda>(rowNumber, cells). rowNumber \<noteq> 1) rows)),
                   validationErrorsObject :=
                     obj_assign (validationErrorsObject st) (ws_name ws)
                       (es @ concat (map (rowDescriptors h cfg ws headers)
                               (filter (\<lambda>(rowNumber, cells). rowNumber \<noteq> 1) rows)))\<rparr>)"
  using assms(2,3)
proof (induction rows arbitrary: st ds es)
  case Nil
  then show ?case by (simp add: obj_assign_same)
next
  case (Cons r rows)
  obtain rowNumber cells where r: "r = (rowNumber, cells)" by (cases r)
  show ?case
  proof (cases "rowNumber = 1")
    case True
    with Cons r show ?thesis by simp
  next
    case False
    let ?rowErrors = "validateRow h (nowAt h (ws_id ws) rowNumber)
                        (buildRowObject h headers cells) cfg rowNumber"
    let ?ds = "rowDescriptors h cfg ws headers r"
    let ?ve = "obj_assign (validationErrorsObject st) (ws_name ws) (es @ ?ds)"
    let ?sd = "obj_assign (sheetDataObject st) (ws_name ws) (ds @ [mappedOf h cfg headers r])"
    let ?st2 = "st\<lparr>sheetDataObject := ?sd, validationErrorsObject := ?ve\<rparr>"
    have m: "mapRow h (buildRowObject h headers cells) cfg = Inr (mappedOf h cfg headers r)"
      using mapRow_mappedOf [OF assms(1), of h headers r] r by simp
    have e1: "(if ?rowErrors = [] then Inr (validationErrorsObject st)
               else obj_push (validationErrorsObject st) (ws_name ws)
                      (map (\<lambda>errorMsg. \<lparr>e_row = rowNumber, e_error = errorMsg\<rparr>) ?rowErrors))
              = Inr ?ve"
      using Cons.prems(2) r
      by (simp add: rowDescriptors_def obj_push_result obj_assign_same)
    have e2: "obj_push (sheetDataObject st) (ws_name ws) [mappedOf h cfg headers r] = Inr ?sd"
      using Cons.prems(1) by (simp add: obj_push_result)
    have step: "eachRow_loop h cfg ws headers (r # rows) st =
                  eachRow_loop h cfg ws headers rows ?st2"
      unfolding r eachRow_loop.simps Let_def using False e1 e2 m by (simp add: r)
    have "obj_read (sheetDataObject ?st2) (ws_name ws) = Some (ds @ [mappedOf h cfg headers r])"
      and "obj_read (validationErrorsObject ?st2) (ws_name ws) = Some (es @ ?ds)"
      by (simp_all add: obj_read_assign)
    from Cons.IH [OF this] have ih: "eachRow_loop h cfg ws headers rows ?st2 =
           Inr (?st2\<lparr>sheetDataObject :=
                     obj_assign (sheetDataObject ?st2) (ws_name ws)
                       ((ds @ [mappedOf h cfg headers r]) @ map (mappedOf h cfg headers)
                               (filter (\<lambda>(rowNumber, cells). rowNumber \<noteq> 1) rows)),
                   validationErrorsObject :=
                     obj_assign (validationErrorsObject ?st2) (ws_name ws)
                       ((es @ ?ds) @ concat (map (rowDescriptors h cfg ws headers)
                               (filter (\<lambda>(rowNumber, cells). rowNumber \<noteq> 1) rows)))\<rparr>)" .
    show ?thesis unfolding step ih using False
      by (simp add: r obj_assign_assign)
  qed
qed

lemma processSheet_result:
  assumes "rulesCoverMapping cfg"
  shows "processSheet h cfg st ws =
           Inr \<lparr>sheetNames = sheetNames st @ [ws_name ws],
                sheetDataObject =
                  (if missingColumns cfg (sheetHeaders ws) = []
                   then obj_assign (sheetDataObject st) (ws_name ws)
                          (map (mappedOf h cfg (sheetHeaders ws)) (dataRows ws))
                   else sheetDataObject st),
                validationErrorsObject =
                  (if sheetErrors h cfg ws = []
                   then obj_delete (obj_assign (validationErrorsObject st) (ws_name ws) [])
                          (ws_name ws)
                   else obj_assign (validationErrorsObject st) (ws_name ws)
                          (sheetErrors h cfg ws))\<rparr>"
proof (cases "missingColumns cfg (sheetHeaders ws) = []")
  case False
  then show ?thesis
    by (simp add: processSheet_def sheetErrors_def sheetHeaders_def Let_def)
next
  case True
  define errs where
    "errs = concat (map (rowDescriptors h cfg ws (sheetHeaders ws)) (dataRows ws))"
  let ?st2 = "st\<lparr>sheetNames := sheetNames st @ [ws_name ws],
                  sheetDataObject := obj_assign (sheetDataObject st) (ws_name ws) [],
                  validationErrorsObject :=
                    obj_assign (validationErrorsObject st) (ws_name ws) []\<rparr>"
  have "eachRow_loop h cfg ws (sheetHeaders ws) (ws_rows ws) ?st2 =
          Inr (?st2\<lparr>sheetDataObject :=
                     obj_assign (sheetDataObject ?st2) (ws_name ws)
                       ([] @ map (mappedOf h cfg (sheetHeaders ws)) (dataRows ws)),
                   validationErrorsObject :=
                     obj_assign (validationErrorsObject ?st2) (ws_name ws)
                       ([] @ errs)\<rparr>)"
    unfolding dataRows_def errs_def
    by (rule eachRow_loop_result [OF assms]) (simp_all add: obj_read_assign)
  then have loop: "eachRow_loop h cfg ws (readHeaders (getRow ws 1)) (ws_rows ws) ?st2 =
          Inr (st\<lparr>sheetNames := sheetNames st @ [ws_name ws],
                  sheetDataObject :=
                     obj_assign (sheetDataObject st) (ws_name ws)
                       (map (mappedOf h cfg (sheetHeaders ws)) (dataRows ws)),
                  validationErrorsObject :=
                     obj_assign (validationErrorsObject st) (ws_name ws) errs\<rparr>)"
    by (simp add: obj_assign_assign sheetHeaders_def)
  have se: "sheetErrors h cfg ws = errs"
    using True by (simp add: sheetErrors_def errs_def)
  have m: "missingColumns cfg (readHeaders (getRow ws 1)) = []"
    using True by (simp add: sheetHeaders_def)
  show ?thesis
    unfolding se using m loop True
    by (cases "errs = []") (simp_all add: processSheet_def Let_def obj_read_assign)
qed

text \<open>
  Whatever the names of the sheets, the callbacks return, the names are appended in
  order and the own keys of \<open>sheetData\<close> grow by names of sheets only.
\<close>

lemma eachSheet_loop_names:
  assumes "rulesCoverMapping cfg"
  shows "\<exists>st'. eachSheet_loop h cfg wb st = Inr st' \<and>
           sheetNames st' = sheetNames st @ map ws_name wb \<and>
           dom (sheetData st') \<subseteq> dom (sheetData st) \<union> set (map ws_name wb)"
proof (induction wb arbitrary: st)
  case Nil
  then show ?case by simp
next
  case (Cons ws wb)
  define st1 where "st1 =
     \<lparr>sheetNames = sheetNames st @ [ws_name ws],
      sheetDataObject =
        (if missingColumns cfg (sheetHeaders ws) = []
         then obj_assign (sheetDataObject st) (ws_name ws)
                (map (mappedOf h cfg (sheetHeaders ws)) (dataRows ws))
         else sheetDataObject st),
      validationErrorsObject =
        (if sheetErrors h cfg ws = []
         then obj_delete (obj_assign (validationErrorsObject st) (ws_name ws) []) (ws_name ws)
         else obj_assign (validationErrorsObject st) (ws_name ws) (sheetErrors h cfg ws))\<rparr>"
  have p: "processSheet h cfg st ws = Inr st1"
    unfolding st1_def by (rule processSheet_result [OF assms])
  have n1: "sheetNames st1 = sheetNames st @ [ws_name ws]"
    by (simp add: st1_def)
  have d1: "dom (sheetData st1) \<subseteq> insert (ws_name ws) (dom (sheetData st))"
    unfolding st1_def sheetData_def by (simp add: dom_obj_assign subset_insertI)
  from Cons.IH [of st1] obtain st' where run: "eachSheet_loop h cfg wb st1 = Inr st'"
    and n2: "sheetNames st' = sheetNames st1 @ map ws_name wb"
    and d2: "dom (sheetData st') \<subseteq> dom (sheetData st1) \<union> set (map ws_name wb)"
    by blast
  from d1 d2 have "dom (sheetData st') \<subseteq>
      insert (ws_name ws) (dom (sheetData st)) \<union> set (map ws_name wb)"
    by blast
  then have "dom (sheetData st') \<subseteq> dom (sheetData st) \<union> set (map ws_name (ws # wb))"
    by simp
  moreover have "eachSheet_loop h cfg (ws # wb) st = Inr st'"
    by (simp add: p run)
  moreover have "sheetNames st' = sheetNames st @ map ws_name (ws # wb)"
    by (simp add: n1 n2)
  ultimately show ?case by blast
qed

text \<open>
  When no sheet is named \<open>__proto__\<close> and the names are distinct, each sheet leaves
  under its name the descriptors recorded for it, if any, and its mapped rows, if its
  header is complete; the other keys are untouched.
\<close>

lemma eachSheet_loop_result:
  assumes "rulesCoverMapping cfg" and "distinct (map ws_name wb)"
    and "''__proto__'' \<notin> set (map ws_name wb)"
  shows "\<exists>st'. eachSheet_loop h cfg wb st = Inr st' \<and>
           sheetNames st' = sheetNames st @ map ws_name wb \<and>
           (\<forall>ws \<in> set wb.
              validationErrors st' (ws_name ws) =
                (if sheetErrors h cfg ws = [] then None else Some (sheetErrors h cfg ws)) \<and>
              sheetData st' (ws_name ws) =
                (if missingColumns cfg (sheetHeaders ws) = []
                 then Some (map (mappedOf h cfg (sheetHeaders ws)) (dataRows ws))
                 else sheetData st (ws_name ws))) \<and>
           (\<forall>n. n \<notin> set (map ws_name wb) \<longrightarrow>
              validationErrors st' n = validationErrors st n \<and> sheetData st' n = sheetData st n)"
  using assms(2,3)
proof (induction wb arbitrary: st)
  case Nil
  then show ?case by simp
next
  case (Cons ws wb)
  from Cons.prems have fresh: "ws_name ws \<notin> set (map ws_name wb)"
    and d: "distinct (map ws_name wb)"
    and np: "ws_name ws \<noteq> ''__proto__''"
    and nps: "''__proto__'' \<notin> set (map ws_name wb)"
    by auto
  define st1 where "st1 =
     \<lparr>sheetNames = sheetNames st @ [ws_name ws],
      sheetDataObject =
        (if missingColumns cfg (sheetHeaders ws) = []
         then obj_assign (sheetDataObject st) (ws_name ws)
                (map (mappedOf h cfg (sheetHeaders ws)) (dataRows ws))
         else sheetDataObject st),
      validationErrorsObject =
        (if sheetErrors h cfg ws = []
         then obj_delete (obj_assign (validationErrorsObject st) (ws_name ws) []) (ws_name ws)
         else obj_assign (validationErrorsObject st) (ws_name ws) (sheetErrors h cfg ws))\<rparr>"
  have p: "processSheet h cfg st ws = Inr st1"
    unfolding st1_def by (rule processSheet_result [OF assms(1)])
  have n1: "sheetNames st1 = sheetNames st @ [ws_name ws]"
    by (simp add: st1_def)
  have s1: "sheetData st1 =
        (if missingColumns cfg (sheetHeaders ws) = []
         then (sheetData st)(ws_name ws \<mapsto> map (mappedOf h cfg (sheetHeaders ws)) (dataRows ws))
         else sheetData st)"
    using np by (simp add: st1_def sheetData_def obj_assign_other)
  have v1: "validationErrors st1 =
        (if sheetErrors h cfg ws = [] then (validationErrors st)(ws_name ws := None)
         else (validationErrors st)(ws_name ws \<mapsto> sheetErrors h cfg ws))"
    using np by (simp add: st1_def validationErrors_def obj_assign_other obj_delete_def)
  from Cons.IH [OF d nps, of st1] obtain st' where
    run: "eachSheet_loop h cfg wb st1 = Inr st'"
    and names: "sheetNames st' = sheetNames st1 @ map ws_name wb"
    and inside: "\<forall>w \<in> set wb.
              validationErrors st' (ws_name w) =
                (if sheetErrors h cfg w = [] then None else Some (sheetErrors h cfg w)) \<and>
              sheetData st' (ws_name w) =
                (if missingColumns cfg (sheetHeaders w) = []
                 then Some (map (mappedOf h cfg (sheetHeaders w)) (dataRows w))
                 else sheetData st1 (ws_name w))"
    and outside: "\<forall>n. n \<notin> set (map ws_name wb) \<longrightarrow>
              validationErrors st' n = validationErrors st1 n \<and> sheetData st' n = sheetData st1 n"
    by blast
  have 1: "eachSheet_loop h cfg (ws # wb) st = Inr st'"
    by (simp add: p run)
  have 2: "sheetNames st' = sheetNames st @ map ws_name (ws # wb)"
    by (simp add: names n1)
  have 3: "validationErrors st' (ws_name ws) =
             (if sheetErrors h cfg ws = [] then None else Some (sheetErrors h cfg ws))"
    and 4: "sheetData st' (ws_name ws) =
             (if missingColumns cfg (sheetHeaders ws) = []
              then Some (map (mappedOf h cfg (sheetHeaders ws)) (dataRows ws))
              else sheetData st (ws_name ws))"
    using outside fresh by (simp_all add: s1 v1)
  have 5: "validationErrors st' (ws_name w) =
             (if sheetErrors h cfg w = [] then None else Some (sheetErrors h cfg w)) \<and>
           sheetData st' (ws_name w) =
             (if missingColumns cfg (sheetHeaders w) = []
              then Some (map (mappedOf h cfg (sheetHeaders w)) (dataRows w))
              else sheetData st (ws_name w))" if "w \<in> set wb" for w
  proof -
    from that fresh have "ws_name w \<noteq> ws_name ws" by (metis image_eqI list.set_map)
    then have "sheetData st1 (ws_name w) = sheetData st (ws_name w)"
      by (simp add: s1)
    with inside that show ?thesis by simp
  qed
  have 6: "validationErrors st' n = validationErrors st n \<and> sheetData st' n = sheetData st n"
    if "n \<notin> set (map ws_name (ws # wb))" for n
  proof -
    from that have "n \<noteq> ws_name ws" and "n \<notin> set (map ws_name wb)" by simp_all
    with outside show ?thesis by (simp add: s1 v1)
  qed
  from 1 2 3 4 5 6 show ?case by auto
qed

text \<open>The examples of sheets, evaluated.\<close>

lemma default_covered: "rulesCoverMapping sheetConfig_default"
  by (simp add: rulesCoverMapping_def sheetConfig_default_def)

lemma example_names:
  "ws_name example_sheet1 = ''Sheet1''"
  "ws_name example_sheet2 = ''Sheet2''"
  "ws_name example_sheet_clean = ''Clean''"
  by (simp_all add: example_sheet1_def example_sheet2_def example_sheet_clean_def)

lemma example_distinct: "distinct (map ws_name example_workbook)"
  by (simp add: example_workbook_def example_names)

lemma example_headers:
  "sheetHeaders example_sheet1 =
     [(1, JStr ''Name''), (2, JStr ''Amount''), (3, JStr ''Date''), (4, JStr ''Verified'')]"
  "sheetHeaders example_sheet2 = [(1, JStr ''Name''), (2, JStr ''Amount'')]"
  "sheetHeaders example_sheet_clean =
     [(1, JStr ''Name''), (2, JStr ''Amount''), (3, JStr ''Date''), (4, JStr ''Verified'')]"
  by (simp_all add: sheetHeaders_def readHeaders_def getRow_def example_sheet1_def
      example_sheet2_def example_sheet_clean_def)

lemma example_missing1: "missingColumns sheetConfig_default (sheetHeaders example_sheet1) = []"
  by (simp add: example_headers missingColumns_def sheetConfig_default_def)

lemma example_missing2:
  "missingColumns sheetConfig_default (sheetHeaders example_sheet2) = [''Date'', ''Verified'']"
  by (simp add: example_headers missingColumns_def sheetConfig_default_def)

lemma example_missing_clean:
  "missingColumns sheetConfig_default (sheetHeaders example_sheet_clean) = []"
  by (simp add: example_headers missingColumns_def sheetConfig_default_def)

lemma example_dataRows1:
  "dataRows example_sheet1 =
     [(2, [(1, JStr ''''), (2, JNum (Fin 5)), (3, JDate (Some 1705276800000)),
           (4, JStr ''Yes'')]),
      (3, [(1, JStr ''Bob''), (2, JNum (Fin (- 1))), (3, JDate (Some 1705276800000)),
           (4, JStr ''Maybe'')])]"
  by (simp add: dataRows_def example_sheet1_def)

lemma example_rows_built:
  "buildRowObject sample_host (sheetHeaders example_sheet1)
     [(1, JStr ''''), (2, JNum (Fin 5)), (3, JDate (Some 1705276800000)), (4, JStr ''Yes'')] =
     example_row2"
  "buildRowObject sample_host (sheetHeaders example_sheet1)
     [(1, JStr ''Bob''), (2, JNum (Fin (- 1))), (3, JDate (Some 1705276800000)),
      (4, JStr ''Maybe'')] =
     example_row3"
  by (simp_all add: buildRowObject_def headerAt_def example_headers example_row2_def
      example_row3_def)

lemma example_mapped1:
  "map (\<lambda>(rowNumber, cells).
          mapRow sample_host (buildRowObject sample_host (sheetHeaders example_sheet1) cells)
            sheetConfig_default)
     (dataRows example_sheet1) =
     [mapRow sample_host example_row2 sheetConfig_default,
      mapRow sample_host example_row3 sheetConfig_default]"
  by (simp only: example_dataRows1 list.map prod.case example_rows_built)

lemma example_rows_mapped:
  "mapRow sample_host example_row2 sheetConfig_default =
     Inr [''name'' \<mapsto> JStr '''', ''amount'' \<mapsto> JNum (Fin 5),
          ''date'' \<mapsto> JDate (Some 1705276800000), ''verified'' \<mapsto> JStr ''Yes'']"
  "mapRow sample_host example_row3 sheetConfig_default =
     Inr [''name'' \<mapsto> JStr ''Bob'', ''amount'' \<mapsto> JNum (Fin (- 1)),
          ''date'' \<mapsto> JDate (Some 1705276800000), ''verified'' \<mapsto> JStr ''Maybe'']"
  by (simp_all add: mapRow_def sheetConfig_default_def rule_Name_def rule_Amount_def
      rule_Date_def rule_Verified_def getProp_def example_row2_def example_row3_def
      sample_host_def Let_def)

lemma example_row2_errors:
  \<open>validateRow sample_host 1705276800000 example_row2 sheetConfig_default 2 =
     [''Row 2: "Name" is required.'']\<close>
  by (simp add: validateRow_columns sheetConfig_default_def validateColumn_def typeCheck_def
      allowedCheck_def isEmpty_def getProp_def example_row2_def rule_Name_def rule_Amount_def
      rule_Date_def rule_Verified_def sample_host_def january_2024 msg_required_def
      msg_head_def show_nat.simps)

lemma example_row3_errors:
  \<open>validateRow sample_host 1705276800000 example_row3 sheetConfig_default 3 =
     [''Row 3: "Amount" must be greater than 0.01.'',
      ''Row 3: "Verified" must be one of Yes, No.'']\<close>
  by (simp add: validateRow_columns sheetConfig_default_def validateColumn_def typeCheck_def
      allowedCheck_def isEmpty_def getProp_def example_row3_def rule_Name_def rule_Amount_def
      rule_Date_def rule_Verified_def sample_host_def january_2024 msg_min_def
      msg_allowed_def msg_head_def show_nat.simps)

lemma example_clean_no_errors:
  "sheetErrors sample_host sheetConfig_default example_sheet_clean = []"
proof -
  have "dataRows example_sheet_clean =
          [(2, [(1, JStr ''Ann''), (2, JNum (Fin 7)), (3, JDate (Some 1705276800000)),
                (4, JStr ''No'')])]"
    by (simp add: dataRows_def example_sheet_clean_def)
  moreover have "validateRow sample_host 1705276800000
       (buildRowObject sample_host (sheetHeaders example_sheet_clean)
          [(1, JStr ''Ann''), (2, JNum (Fin 7)), (3, JDate (Some 1705276800000)),
           (4, JStr ''No'')])
       sheetConfig_default 2 = []"
    by (simp add: example_headers buildRowObject_def headerAt_def validateRow_columns
        sheetConfig_default_def validateColumn_def typeCheck_def allowedCheck_def isEmpty_def
        getProp_def rule_Name_def rule_Amount_def rule_Date_def rule_Verified_def
        sample_host_def january_2024)
  moreover have "nowAt sample_host (ws_id example_sheet_clean) 2 = 1705276800000"
    by (simp add: sample_host_def)
  ultimately show ?thesis
    by (simp add: sheetErrors_def example_missing_clean rowDescriptors_def)
qed

text \<open>What is recorded for a sheet, and its rows, do not depend on its name.\<close>

lemma renamed_rowDescriptors:
  "rowDescriptors h cfg (ws\<lparr>ws_name := n\<rparr>) headers = rowDescriptors h cfg ws headers"
  by (rule ext) (simp add: rowDescriptors_def)

lemma renamed_sheet:
  "sheetHeaders (ws\<lparr>ws_name := n\<rparr>) = sheetHeaders ws"
  "dataRows (ws\<lparr>ws_name := n\<rparr>) = dataRows ws"
  "sheetErrors h cfg (ws\<lparr>ws_name := n\<rparr>) = sheetErrors h cfg ws"
  by (simp_all add: sheetHeaders_def getRow_def dataRows_def sheetErrors_def
      renamed_rowDescriptors)

lemma example_sheet1_errors:
  \<open>sheetErrors sample_host sheetConfig_default example_sheet1 =
     [\<lparr>e_row = 2, e_error = ''Row 2: "Name" is required.''\<rparr>,
      \<lparr>e_row = 3, e_error = ''Row 3: "Amount" must be greater than 0.01.''\<rparr>,
      \<lparr>e_row = 3, e_error = ''Row 3: "Verified" must be one of Yes, No.''\<rparr>]\<close>
proof -
  have clock: "nowAt sample_host sheetId rowNumber = 1705276800000" for sheetId rowNumber
    by (simp add: sample_host_def)
  have "concat (map (rowDescriptors sample_host sheetConfig_default example_sheet1
                       (sheetHeaders example_sheet1)) (dataRows example_sheet1)) =
          map (\<lambda>errorMsg. \<lparr>e_row = 2, e_error = errorMsg\<rparr>)
            (validateRow sample_host 1705276800000 example_row2 sheetConfig_default 2)
          @ map (\<lambda>errorMsg. \<lparr>e_row = 3, e_error = errorMsg\<rparr>)
              (validateRow sample_host 1705276800000 example_row3 sheetConfig_default 3)"
    by (simp only: example_dataRows1 list.map concat.simps rowDescriptors_def prod.case
        example_rows_built clock append_Nil2)
  then show ?thesis
    by (simp add: sheetErrors_def example_missing1 example_row2_errors example_row3_errors)
qed

lemma example_clean_rows:
  "dataRows example_sheet_clean =
     [(2, [(1, JStr ''Ann''), (2, JNum (Fin 7)), (3, JDate (Some 1705276800000)),
           (4, JStr ''No'')])]"
  by (simp add: dataRows_def example_sheet_clean_def)

lemma example_clean_built:
  "buildRowObject sample_host (sheetHeaders example_sheet_clean)
     [(1, JStr ''Ann''), (2, JNum (Fin 7)), (3, JDate (Some 1705276800000)),
      (4, JStr ''No'')] =
     example_row_clean"
  by (simp add: buildRowObject_def headerAt_def example_headers example_row_clean_def)

lemma example_clean_row_mapped:
  "mapRow sample_host example_row_clean sheetConfig_default =
     Inr [''name'' \<mapsto> JStr ''Ann'', ''amount'' \<mapsto> JNum (Fin 7),
          ''date'' \<mapsto> JDate (Some 1705276800000), ''verified'' \<mapsto> JStr ''No'']"
  by (simp add: mapRow_def sheetConfig_default_def rule_Name_def rule_Amount_def
      rule_Date_def rule_Verified_def getProp_def example_row_clean_def
      sample_host_def Let_def)

lemma example_clean_mapped:
  "map (mappedOf sample_host sheetConfig_default (sheetHeaders example_sheet_clean))
     (dataRows example_sheet_clean) =
     [[''name'' \<mapsto> JStr ''Ann'', ''amount'' \<mapsto> JNum (Fin 7),
       ''date'' \<mapsto> JDate (Some 1705276800000), ''verified'' \<mapsto> JStr ''No'']]"
  by (simp only: example_clean_rows list.map mappedOf_def snd_conv example_clean_built
      example_clean_row_mapped sum.case)

section \<open>Properties of the upload handler\<close>

text \<open>
  Sheets under any name but \<open>__proto__\<close>. In a workbook whose sheets have distinct
  names, none of them \<open>__proto__\<close>, processed with a configuration whose mapped columns
  all have rules: a sheet whose header lacks a column ends with exactly one descriptor
  under its name, at row 1, and with no entry in \<open>sheetData\<close>.
\<close>

lemma named_sheet_missing_columns:
  assumes "rulesCoverMapping cfg"
    and "distinct (map ws_name wb)"
    and "''__proto__'' \<notin> set (map ws_name wb)"
    and "ws \<in> set wb"
    and "missingColumns cfg (sheetHeaders ws) \<noteq> []"
  shows "\<exists>out. processWorkbook h cfg wb = Inr out \<and>
            validationErrors out (ws_name ws) =
              Some [\<lparr>e_row = 1,
                     e_error = ''Missing required columns: ''
                       @ join '', '' (missingColumns cfg (sheetHeaders ws))\<rparr>] \<and>
            sheetData out (ws_name ws) = None"
proof -
  from eachSheet_loop_result [OF assms(1,2,3), of h
      "\<lparr>sheetNames = [], sheetDataObject = (Map.empty, None),
        validationErrorsObject = (Map.empty, None)\<rparr>"]
  obtain out where "processWorkbook h cfg wb = Inr out"
    and "\<forall>w \<in> set wb.
           validationErrors out (ws_name w) =
             (if sheetErrors h cfg w = [] then None else Some (sheetErrors h cfg w)) \<and>
           sheetData out (ws_name w) =
             (if missingColumns cfg (sheetHeaders w) = []
              then Some (map (mappedOf h cfg (sheetHeaders w)) (dataRows w))
              else None)"
    unfolding processWorkbook_def by (auto simp: sheetData_def)
  with assms(4,5) show ?thesis
    by (auto simp: sheetErrors_def msg_missing_def)
qed

text \<open>
  A sheet whose header is complete ends with the result of \<open>mapRow\<close> for every data
  row under its name, whatever \<open>validateRow\<close> said of the row.
\<close>

lemma named_sheet_rows_mapped:
  assumes "rulesCoverMapping cfg"
    and "distinct (map ws_name wb)"
    and "''__proto__'' \<notin> set (map ws_name wb)"
    and "ws \<in> set wb"
    and "missingColumns cfg (sheetHeaders ws) = []"
  shows "\<exists>out rows. processWorkbook h cfg wb = Inr out \<and>
           sheetData out (ws_name ws) = Some rows \<and>
           map Inr rows =
             map (\<lambda>(rowNumber, cells). mapRow h (buildRowObject h (sheetHeaders ws) cells) cfg)
               (dataRows ws)"
proof -
  from eachSheet_loop_result [OF assms(1,2,3), of h
      "\<lparr>sheetNames = [], sheetDataObject = (Map.empty, None),
        validationErrorsObject = (Map.empty, None)\<rparr>"]
  obtain out where run: "processWorkbook h cfg wb = Inr out"
    and "\<forall>w \<in> set wb.
           sheetData out (ws_name w) =
             (if missingColumns cfg (sheetHeaders w) = []
              then Some (map (mappedOf h cfg (sheetHeaders w)) (dataRows w))
              else None)"
    unfolding processWorkbook_def by (auto simp: sheetData_def)
  with assms(4,5) have
    d: "sheetData out (ws_name ws) = Some (map (mappedOf h cfg (sheetHeaders ws)) (dataRows ws))"
    by simp
  have "map Inr (map (mappedOf h cfg (sheetHeaders ws)) (dataRows ws)) =
          map (\<lambda>(rowNumber, cells). mapRow h (buildRowObject h (sheetHeaders ws) cells) cfg)
            (dataRows ws)"
    using mapRow_mappedOf [OF assms(1), of h "sheetHeaders ws"] by (auto simp: case_prod_beta)
  with run d show ?thesis by blast
qed

text \<open>
  The keys of \<open>validationErrors\<close> are then the names of the sheets for which a
  descriptor was recorded, and none is bound to the empty list.
\<close>

lemma named_sheets_validationErrors_keys:
  assumes "rulesCoverMapping cfg"
    and "distinct (map ws_name wb)"
    and "''__proto__'' \<notin> set (map ws_name wb)"
  shows "\<exists>out. processWorkbook h cfg wb = Inr out \<and>
           (\<forall>ws \<in> set wb.
              (ws_name ws \<in> dom (validationErrors out)) = (sheetErrors h cfg ws \<noteq> []) \<and>
              (sheetErrors h cfg ws \<noteq> [] \<longrightarrow>
                 validationErrors out (ws_name ws) = Some (sheetErrors h cfg ws))) \<and>
           dom (validationErrors out) =
             ws_name ` {ws \<in> set wb. sheetErrors h cfg ws \<noteq> []} \<and>
           [] \<notin> ran (validationErrors out)"
proof -
  from eachSheet_loop_result [OF assms(1,2,3), of h
      "\<lparr>sheetNames = [], sheetDataObject = (Map.empty, None),
        validationErrorsObject = (Map.empty, None)\<rparr>"]
  obtain out where run: "processWorkbook h cfg wb = Inr out"
    and inside: "\<forall>w \<in> set wb.
           validationErrors out (ws_name w) =
             (if sheetErrors h cfg w = [] then None else Some (sheetErrors h cfg w))"
    and outside: "\<forall>n. n \<notin> set (map ws_name wb) \<longrightarrow> validationErrors out n = None"
    unfolding processWorkbook_def by (auto simp: validationErrors_def)
  have a: "\<forall>ws \<in> set wb.
              (ws_name ws \<in> dom (validationErrors out)) = (sheetErrors h cfg ws \<noteq> []) \<and>
              (sheetErrors h cfg ws \<noteq> [] \<longrightarrow>
                 validationErrors out (ws_name ws) = Some (sheetErrors h cfg ws))"
    using inside by (auto simp: dom_def)
  have shape: "\<exists>w \<in> set wb. n = ws_name w \<and> es = sheetErrors h cfg w \<and> es \<noteq> []"
    if "validationErrors out n = Some es" for n es
  proof -
    from that outside have "n \<in> set (map ws_name wb)" by force
    then obtain w where w: "w \<in> set wb" "n = ws_name w" by auto
    with inside that show ?thesis by (auto split: if_splits)
  qed
  have b: "dom (validationErrors out) = ws_name ` {ws \<in> set wb. sheetErrors h cfg ws \<noteq> []}"
  proof (rule set_eqI)
    fix n
    show "(n \<in> dom (validationErrors out)) =
            (n \<in> ws_name ` {ws \<in> set wb. sheetErrors h cfg ws \<noteq> []})"
    proof
      assume "n \<in> dom (validationErrors out)"
      then obtain es where "validationErrors out n = Some es" by auto
      from shape [OF this] show "n \<in> ws_name ` {ws \<in> set wb. sheetErrors h cfg ws \<noteq> []}"
        by auto
    next
      assume "n \<in> ws_name ` {ws \<in> set wb. sheetErrors h cfg ws \<noteq> []}"
      then obtain w where "w \<in> set wb" "sheetErrors h cfg w \<noteq> []" "n = ws_name w" by auto
      with a show "n \<in> dom (validationErrors out)" by auto
    qed
  qed
  have c: "[] \<notin> ran (validationErrors out)"
  proof
    assume "[] \<in> ran (validationErrors out)"
    then obtain n where "validationErrors out n = Some []" by (auto simp: ran_def)
    from shape [OF this] show False by auto
  qed
  from run a b c show ?thesis by blast
qed

text \<open>
  The example workbook: the sheet with errors gets its three descriptors and both rows,
  the sheet with an incomplete header its one descriptor and no rows.
\<close>

lemma example_workbook_errors:
  \<open>\<exists>out. upload sample_host (Workbook example_workbook) = Json out \<and>
     validationErrors out ''Sheet1'' =
       Some [\<lparr>e_row = 2, e_error = ''Row 2: "Name" is required.''\<rparr>,
             \<lparr>e_row = 3, e_error = ''Row 3: "Amount" must be greater than 0.01.''\<rparr>,
             \<lparr>e_row = 3, e_error = ''Row 3: "Verified" must be one of Yes, No.''\<rparr>] \<and>
     validationErrors out ''Sheet2'' =
       Some [\<lparr>e_row = 1, e_error = ''Missing required columns: Date, Verified''\<rparr>] \<and>
     sheetData out ''Sheet2'' = None\<close>
proof -
  have np: "''__proto__'' \<notin> set (map ws_name example_workbook)"
    by (simp add: example_workbook_def example_names)
  have s2: "sheetErrors sample_host sheetConfig_default example_sheet2 =
              [\<lparr>e_row = 1, e_error = ''Missing required columns: Date, Verified''\<rparr>]"
    by (simp add: sheetErrors_def example_missing2 msg_missing_def)
  from named_sheets_validationErrors_keys [OF default_covered example_distinct np,
      of sample_host]
    named_sheet_missing_columns [OF default_covered example_distinct np, of example_sheet2
      sample_host]
  show ?thesis
    by (auto simp: upload_def example_workbook_def example_names example_sheet1_errors s2
        example_missing2)
qed

text \<open>
  C8. \<open>mapRow\<close> is a function of the row and the configuration: it reads neither the
  clock nor any state, so the same row and configuration give the same result whatever
  the instant (the second equation below, with any other clock). When every mapped
  column has a rule it returns, and the keys of the object it returns are exactly the
  database fields of \<open>columnMapping\<close>.
\<close>

theorem mapRow_keys:
  assumes "rulesCoverMapping cfg"
  shows "\<exists>mappedRow. mapRow h rowObject cfg = Inr mappedRow \<and>
           dom mappedRow = set (map snd (columnMapping cfg)) \<and>
           mapRow (h\<lparr>nowAt := clock\<rparr>) rowObject cfg = Inr mappedRow"
  using mapRow_loop_returns [of cfg "columnMapping cfg" h rowObject Map.empty] assms
  by (auto simp: mapRow_def rulesCoverMapping_def mapRow_loop_clock)

theorem mapRow_keys_witness:
  "rulesCoverMapping sheetConfig_default \<and>
   (\<exists>mappedRow. mapRow sample_host example_row2 sheetConfig_default = Inr mappedRow \<and>
      dom mappedRow = {''name'', ''amount'', ''date'', ''verified''})"
proof -
  from mapRow_keys [OF default_covered, of sample_host example_row2 "\<lambda>sheetId rowNumber. 0"]
  obtain mappedRow where "mapRow sample_host example_row2 sheetConfig_default = Inr mappedRow"
    and "dom mappedRow = set (map snd (columnMapping sheetConfig_default))"
    by blast
  moreover have "set (map snd (columnMapping sheetConfig_default)) =
      {''name'', ''amount'', ''date'', ''verified''}"
    by (simp add: sheetConfig_default_def)
  ultimately show ?thesis using default_covered by auto
qed

text \<open>
  C4. Every sheet whose header lacks a column should end with exactly one descriptor
  under its name, at row 1, naming the missing columns. The handler does not do so for a
  sheet named \<open>__proto__\<close>: with the default configuration and any host, the workbook
  made of such a sheet, whose header has neither Date nor Verified, is answered with the
  name in \<open>sheetNames\<close> and no key at all in \<open>validationErrors\<close>; the descriptor is
  in the array that the assignment made the prototype of the object.
\<close>

theorem proto_sheet_missing_columns_lost:
  "missingColumns sheetConfig_default (sheetHeaders proto_sheet2) = [''Date'', ''Verified''] \<and>
   upload h (Workbook [proto_sheet2]) =
     Json \<lparr>sheetNames = [''__proto__''],
           sheetDataObject = (Map.empty, None),
           validationErrorsObject =
             (Map.empty,
              Some [\<lparr>e_row = 1, e_error = ''Missing required columns: Date, Verified''\<rparr>])\<rparr> \<and>
   validationErrors
     \<lparr>sheetNames = [''__proto__''],
      sheetDataObject = (Map.empty, None),
      validationErrorsObject =
        (Map.empty,
         Some [\<lparr>e_row = 1, e_error = ''Missing required columns: Date, Verified''\<rparr>])\<rparr> =
     Map.empty"
proof -
  have m: "missingColumns sheetConfig_default (sheetHeaders proto_sheet2) =
             [''Date'', ''Verified'']"
    by (simp add: proto_sheet2_def renamed_sheet example_missing2)
  have e: "sheetErrors h sheetConfig_default proto_sheet2 =
             [\<lparr>e_row = 1, e_error = ''Missing required columns: Date, Verified''\<rparr>]"
    by (simp add: sheetErrors_def m msg_missing_def)
  have n: "ws_name proto_sheet2 = ''__proto__''"
    by (simp add: proto_sheet2_def)
  show ?thesis
    by (simp add: m e n upload_def processWorkbook_def processSheet_result [OF default_covered]
        obj_assign_def validationErrors_def)
qed

text \<open>
  C7. Every data row of a sheet whose header is complete should be in the list that
  \<open>sheetData\<close> holds for the sheet. The handler does not return the rows of a sheet
  named \<open>__proto__\<close>: the workbook made of such a sheet, with one data row that has no
  error, is answered with no key at all in \<open>sheetData\<close>; the mapped row is in the
  array that the assignment made the prototype of the object.
\<close>

theorem proto_sheet_rows_not_returned:
  "missingColumns sheetConfig_default (sheetHeaders proto_sheet_clean) = [] \<and>
   length (dataRows proto_sheet_clean) = 1 \<and>
   (\<exists>out. upload sample_host (Workbook [proto_sheet_clean]) = Json out \<and>
      sheetNames out = [''__proto__''] \<and>
      sheetData out = Map.empty \<and>
      sheetDataObject out =
        (Map.empty,
         Some [[''name'' \<mapsto> JStr ''Ann'', ''amount'' \<mapsto> JNum (Fin 7),
                ''date'' \<mapsto> JDate (Some 1705276800000), ''verified'' \<mapsto> JStr ''No'']]))"
proof -
  have m: "missingColumns sheetConfig_default (sheetHeaders proto_sheet_clean) = []"
    by (simp add: proto_sheet_clean_def renamed_sheet example_missing_clean)
  have d: "length (dataRows proto_sheet_clean) = 1"
    by (simp add: proto_sheet_clean_def renamed_sheet)
       (simp add: dataRows_def example_sheet_clean_def)
  have r: "map (mappedOf sample_host sheetConfig_default (sheetHeaders proto_sheet_clean))
             (dataRows proto_sheet_clean) =
           [[''name'' \<mapsto> JStr ''Ann'', ''amount'' \<mapsto> JNum (Fin 7),
             ''date'' \<mapsto> JDate (Some 1705276800000), ''verified'' \<mapsto> JStr ''No'']]"
    by (simp only: proto_sheet_clean_def renamed_sheet example_clean_mapped)
  have n: "ws_name proto_sheet_clean = ''__proto__''"
    by (simp add: proto_sheet_clean_def)
  have "\<exists>out. upload sample_host (Workbook [proto_sheet_clean]) = Json out \<and>
      sheetNames out = [''__proto__''] \<and>
      sheetData out = Map.empty \<and>
      sheetDataObject out =
        (Map.empty,
         Some [[''name'' \<mapsto> JStr ''Ann'', ''amount'' \<mapsto> JNum (Fin 7),
                ''date'' \<mapsto> JDate (Some 1705276800000), ''verified'' \<mapsto> JStr ''No'']])"
    by (simp add: m r n upload_def processWorkbook_def processSheet_result [OF default_covered]
        obj_assign_def sheetData_def)
  with m d show ?thesis by (intro conjI)
qed

text \<open>
  C9. The name of a sheet should be a key of \<open>validationErrors\<close> exactly when a
  descriptor was recorded for the sheet. The handler gives no key to a sheet named
  \<open>__proto__\<close>: the workbook made of such a sheet, whose rows 2 and 3 have errors, is
  answered with no key at all in \<open>validationErrors\<close>, though three descriptors were
  recorded; they are in the array that the assignment made the prototype of the object.
\<close>

theorem proto_sheet_errors_without_key:
  \<open>sheetErrors sample_host sheetConfig_default proto_sheet1 =
     [\<lparr>e_row = 2, e_error = ''Row 2: "Name" is required.''\<rparr>,
      \<lparr>e_row = 3, e_error = ''Row 3: "Amount" must be greater than 0.01.''\<rparr>,
      \<lparr>e_row = 3, e_error = ''Row 3: "Verified" must be one of Yes, No.''\<rparr>] \<and>
   (\<exists>out. upload sample_host (Workbook [proto_sheet1]) = Json out \<and>
      sheetNames out = [''__proto__''] \<and>
      dom (validationErrors out) = {} \<and>
      snd (validationErrorsObject out) =
        Some (sheetErrors sample_host sheetConfig_default proto_sheet1))\<close>
proof -
  have e: \<open>sheetErrors sample_host sheetConfig_default proto_sheet1 =
     [\<lparr>e_row = 2, e_error = ''Row 2: "Name" is required.''\<rparr>,
      \<lparr>e_row = 3, e_error = ''Row 3: "Amount" must be greater than 0.01.''\<rparr>,
      \<lparr>e_row = 3, e_error = ''Row 3: "Verified" must be one of Yes, No.''\<rparr>]\<close>
    by (simp only: proto_sheet1_def renamed_sheet example_sheet1_errors)
  then have ne: "sheetErrors sample_host sheetConfig_default proto_sheet1 \<noteq> []"
    by simp
  have n: "ws_name proto_sheet1 = ''__proto__''"
    by (simp add: proto_sheet1_def)
  have "\<exists>out. upload sample_host (Workbook [proto_sheet1]) = Json out \<and>
      sheetNames out = [''__proto__''] \<and>
      dom (validationErrors out) = {} \<and>
      snd (validationErrorsObject out) =
        Some (sheetErrors sample_host sheetConfig_default proto_sheet1)"
    using ne
    by (simp add: n upload_def processWorkbook_def processSheet_result [OF default_covered]
        obj_assign_def validationErrors_def)
  with e show ?thesis by (intro conjI)
qed

text \<open>
  C10. \<open>sheetNames\<close> holds the name of every sheet of the workbook, in the order of the
  sheets, whether or not the header of the sheet was complete, and every key of
  \<open>sheetData\<close> is one of these names. The inclusion can be strict: with the default
  configuration and any host, the workbook made of the one sheet \<open>Sheet2\<close>, whose header
  is incomplete, gives a name in \<open>sheetNames\<close> that is no key of \<open>sheetData\<close>.
\<close>

theorem sheetNames_all_sheets:
  assumes "rulesCoverMapping cfg"
  shows "(\<exists>out. processWorkbook h cfg wb = Inr out \<and>
            sheetNames out = map ws_name wb \<and>
            dom (sheetData out) \<subseteq> set (sheetNames out)) \<and>
         (\<exists>out. processWorkbook h sheetConfig_default [example_sheet2] = Inr out \<and>
            dom (sheetData out) \<subset> set (sheetNames out))"
proof -
  from eachSheet_loop_names [OF assms, of h wb
      "\<lparr>sheetNames = [], sheetDataObject = (Map.empty, None),
        validationErrorsObject = (Map.empty, None)\<rparr>"]
  have "\<exists>out. processWorkbook h cfg wb = Inr out \<and>
            sheetNames out = map ws_name wb \<and>
            dom (sheetData out) \<subseteq> set (sheetNames out)"
    unfolding processWorkbook_def by (auto simp: sheetData_def)
  moreover have "\<exists>out. processWorkbook h sheetConfig_default [example_sheet2] = Inr out \<and>
            dom (sheetData out) \<subset> set (sheetNames out)"
    by (simp add: processWorkbook_def processSheet_result [OF default_covered] example_missing2
        psubset_eq sheetData_def)
  ultimately show ?thesis by blast
qed

theorem sheetNames_all_sheets_witness:
  "rulesCoverMapping sheetConfig_default \<and>
   (\<exists>out. upload sample_host (Workbook example_workbook) = Json out \<and>
      sheetNames out = [''Sheet1'', ''Sheet2''] \<and>
      dom (sheetData out) \<subseteq> set (sheetNames out))"
proof -
  from sheetNames_all_sheets [OF default_covered, of sample_host example_workbook]
  obtain out where
    "processWorkbook sample_host sheetConfig_default example_workbook = Inr out"
    and "sheetNames out = map ws_name example_workbook"
    and "dom (sheetData out) \<subseteq> set (sheetNames out)"
    by blast
  then have "upload sample_host (Workbook example_workbook) = Json out \<and>
      sheetNames out = [''Sheet1'', ''Sheet2''] \<and>
      dom (sheetData out) \<subseteq> set (sheetNames out)"
    by (simp add: upload_def example_workbook_def example_sheet1_def example_sheet2_def)
  with default_covered show ?thesis by blast
qed

section \<open>Properties of the import handler\<close>

lemma filter_index_nths:
  "filter_index p k xs = nths xs {i. i < length xs \<and> p (xs ! i) (i + k)}"
proof (induction xs arbitrary: k)
  case Nil
  then show ?case by simp
next
  case (Cons x xs)
  have "{j. Suc j \<in> {i. i < length (x # xs) \<and> p ((x # xs) ! i) (i + k)}} =
          {i. i < length xs \<and> p (xs ! i) (i + Suc k)}"
    by auto
  then show ?case
    by (simp add: nths_Cons Cons.IH)
qed

text \<open>
  The scenario of three rows, with a descriptor at row 3 and an empty name in the third
  row: only the first row is kept.
\<close>

lemma validRows_scenario:
  "validRows [\<lparr>e_row = 3, e_error = ''e''\<rparr>]
     [[''name'' \<mapsto> JStr ''Ann''], [''name'' \<mapsto> JStr ''Bob''], [''name'' \<mapsto> JStr '''']] =
     [[''name'' \<mapsto> JStr ''Ann'']]"
  by (simp add: validRows_def Let_def getProp_def)

text \<open>
  The filter itself keeps the rows at the indices \<open>i\<close> such that \<open>i + 2\<close> is not the
  row of a descriptor handed to it and the field \<open>name\<close> of the row is truthy.
\<close>

lemma validRows_nths:
  "validRows errs rows =
     nths rows {i. i < length rows \<and> i + 2 \<notin> set (map e_row errs) \<and>
                   truthy (getProp (rows ! i) ''name'')}"
  by (simp add: validRows_def Let_def filter_index_nths)

text \<open>
  In the loop, a sheet whose descriptors can be read has these rows handed to
  \<open>insertMany\<close>, when there is at least one.
\<close>

lemma import_loop_selection:
  assumes "errorsOf errors sheet = Inr errs"
  shows "import_loop insertMany errors ((sheet, Some rows) # rest) importedCount =
     (if nths rows {i. i < length rows \<and> i + 2 \<notin> set (map e_row errs) \<and>
            truthy (getProp (rows ! i) ''name'')} \<noteq> []
      then (case insertMany (nths rows {i. i < length rows \<and>
                  i + 2 \<notin> set (map e_row errs) \<and>
                  truthy (getProp (rows ! i) ''name'')}) of
              Inl e \<Rightarrow> Inl e
            | Inr n \<Rightarrow> import_loop insertMany errors rest (importedCount + n))
      else import_loop insertMany errors rest importedCount)"
  using assms by (simp add: Let_def validRows_nths del: set_map)

text \<open>
  C3. For every sheet, the row at index \<open>i\<close> should be kept for the import exactly when
  \<open>i + 2\<close> is not the row of a descriptor of the sheet and its \<open>name\<close> is truthy. The
  handler does not do so for a sheet whose name \<open>Object.prototype\<close> defines and for
  which the request gives no descriptors: for the one sheet \<open>constructor\<close>, with one
  row whose name is \<open>Ann\<close> and no \<open>errors\<close> in the request, the filter would keep the
  row, but building the set of error rows throws, and the answer is the status 500 with
  nothing handed to \<open>insertMany\<close>.
\<close>

theorem import_inherited_sheet_name_throws:
  "validRows [] [[''name'' \<mapsto> JStr ''Ann'']] = [[''name'' \<mapsto> JStr ''Ann'']] \<and>
   errorsOf Map.empty ''constructor'' = Inl TypeError \<and>
   import_handler insertMany
     \<lparr>b_data = Some [(''constructor'', Some [[''name'' \<mapsto> JStr ''Ann'']])],
      b_sheetData = None, b_errors = None\<rparr> =
     Status500 ''Error importing data.''"
  by (simp add: validRows_def getProp_def import_handler_def errorsOf_def
      objectPrototypeKeys_def)

end
